theory Spec2Isabelle
  imports Main
begin

section \<open>Data types of \<^verbatim>\<open>gradescope_report.ts\<close>\<close>

text \<open>
  The input interfaces. Field names carry a short prefix (\<open>t_\<close>, \<open>b_\<close>, \<open>e_\<close>, ...) because
  the source reuses \<^verbatim>\<open>loc\<close>, \<open>name\<close> and \<^verbatim>\<open>tests\<close> in several interfaces. JavaScript
  strings are modelled as \<^typ>\<open>string\<close>; only equality, concatenation and splitting at
  ASCII separators are used on them.
\<close>

record Test =
  t_loc :: string
  t_passed :: bool

record TestBlock =
  b_name :: string
  b_loc :: string
  b_error :: bool
  b_tests :: "Test list"

datatype ErrKind = Unknown | Compilation | OutOfMemory | Timeout | Runtime

text \<open>
  \<^verbatim>\<open>interface Result { Ok?: TestBlock[]; Err?: Err }\<close> is the JSON form of a tagged union:
  an evaluation file carries exactly one of the two keys. The source tests the tag with
  \<^verbatim>\<open>if (x.result.Err)\<close> and \<^verbatim>\<open>if (x.result.Ok)\<close>; each of the five \<^verbatim>\<open>Err\<close> strings
  and every array is truthy, so these tests are the case distinction below.
\<close>

datatype Result = Ok "TestBlock list" | Err ErrKind

record Evaluation =
  e_code :: string
  e_tests :: string
  e_result :: Result

datatype Visibility = Visible | AfterPublished | Hidden

datatype ReportSection = Functionality | Wheat | Chaff

datatype ReportType = Examplar | Detailed | Score

text \<open>
  \<^verbatim>\<open>GradescopeTestReport\<close>: \<^verbatim>\<open>score\<close> and \<^verbatim>\<open>max_score\<close> are optional numbers
  (\<open>None\<close> is \<^verbatim>\<open>undefined\<close>); \<^verbatim>\<open>extra_data\<close> is flattened into \<open>r_section\<close> and
  \<open>r_type\<close>. The type of JavaScript numbers is the type parameter \<open>'n\<close>: any type with the
  two constants \<open>0\<close> and \<open>1\<close> that the program writes. The addition of two numbers and their
  comparison with \<^verbatim>\<open>===\<close> are parameters of the functions that use them (\<open>add\<close> and
  \<open>same\<close> below), and nothing is assumed of them.
\<close>

record 'n GradescopeTestReport =
  r_name :: string
  r_output :: string
  r_score :: "'n option"
  r_max_score :: "'n option"
  r_visibility :: Visibility
  r_section :: ReportSection
  r_type :: ReportType

record 'n PointData =
  functionality :: "string \<rightharpoonup> 'n"
  testing :: "string \<rightharpoonup> 'n"

text \<open>What the program can throw: a \<^verbatim>\<open>TypeError\<close> of the runtime, or a thrown string.\<close>

datatype exn = TypeError | Thrown string

record TestAndBlock =
  tb_test :: Test
  tb_block :: TestBlock

datatype TestFailure = Pass | Fail | ErrF

record Failures =
  f_tests :: "TestAndBlock list"
  f_blocks :: "TestBlock list"

text \<open>\<^verbatim>\<open>TestFailureReport\<close>: the field \<^verbatim>\<open>failures\<close> is optional, \<open>None\<close> when absent.\<close>

record TestFailureReport =
  success :: TestFailure
  failures :: "Failures option"

record WheatMessagesReport =
  valid :: bool
  messages :: "string list option"

section \<open>String helpers\<close>

text \<open>
  \<^verbatim>\<open>String.prototype.split\<close> with a string separator: cut at every occurrence of the
  separator, scanning from the left; the result always has at least one piece when the
  separator is not empty.
\<close>

definition starts_with :: "string \<Rightarrow> string \<Rightarrow> bool" where
  "starts_with sep s = (take (length sep) s = sep)"

fun split_js :: "string \<Rightarrow> string \<Rightarrow> string list" where
  "split_js [] s = map (\<lambda>c. [c]) s"
| "split_js (d # ds) [] = [[]]"
| "split_js (d # ds) (c # cs) =
     (if starts_with (d # ds) (c # cs) then [] # split_js (d # ds) (drop (length ds) cs)
      else (case split_js (d # ds) cs of [] \<Rightarrow> [[c]] | p # ps \<Rightarrow> (c # p) # ps))"

text \<open>Indexing an array: \<^verbatim>\<open>xs[i]\<close> is \<^verbatim>\<open>undefined\<close> (\<open>None\<close>) out of range.\<close>

definition at_index :: "'a list \<Rightarrow> nat \<Rightarrow> 'a option" where
  "at_index xs i = (if i < length xs then Some (xs ! i) else None)"

text \<open>A template literal prints an absent string as \<^verbatim>\<open>undefined\<close>.\<close>

definition show_opt :: "string option \<Rightarrow> string" where
  "show_opt v = (case v of None \<Rightarrow> ''undefined'' | Some s \<Rightarrow> s)"

fun show_ErrKind :: "ErrKind \<Rightarrow> string" where
  "show_ErrKind Unknown = ''Unknown''"
| "show_ErrKind Compilation = ''Compilation''"
| "show_ErrKind OutOfMemory = ''OutOfMemory''"
| "show_ErrKind Timeout = ''Timeout''"
| "show_ErrKind Runtime = ''Runtime''"

text \<open>\<^verbatim>\<open>${x.result.Err}\<close> inside a template literal.\<close>

definition show_result_Err :: "Result \<Rightarrow> string" where
  "show_result_Err r = (case r of Err k \<Rightarrow> show_ErrKind k | Ok bs \<Rightarrow> ''undefined'')"

fun show_nat :: "nat \<Rightarrow> string" where
  "show_nat n =
     (if n < 10 then [char_of (48 + n)]
      else show_nat (n div 10) @ [char_of (48 + n mod 10)])"

declare show_nat.simps [simp del]

text \<open>
  \<^verbatim>\<open>path.basename\<close> of Node on POSIX paths: drop trailing slashes, then keep what follows
  the last remaining slash.
\<close>

definition basename :: "string \<Rightarrow> string" where
  "basename p =
     (let q = rev (dropWhile (\<lambda>c. c = CHR ''/'') (rev p))
      in rev (takeWhile (\<lambda>c. c \<noteq> CHR ''/'') (rev q)))"

definition get_code_file_name :: "Evaluation \<Rightarrow> string" where
  "get_code_file_name evaluation = basename (e_code evaluation)"

definition get_line_number :: "string \<Rightarrow> string option" where
  "get_line_number test_loc = at_index (split_js ''.arr:'' test_loc) 1"

text \<open>
  \<^verbatim>\<open>get_loc_name\<close>: the last piece of the location split at \<^verbatim>\<open>/\<close>. The split is never
  empty (lemma \<open>split_js_nonempty\<close>), so the index \<^verbatim>\<open>parts.length - 1\<close> is in range.
\<close>

definition get_loc_name :: "string \<Rightarrow> string" where
  "get_loc_name loc = (let parts = split_js ''/'' loc in last parts)"

section \<open>Location normalizer\<close>

text \<open>
  \<^verbatim>\<open>normalize_code_names\<close> mutates the evaluation in place; the model returns the
  evaluation after the call.
\<close>

definition normalize_test :: "Test \<Rightarrow> Test" where
  "normalize_test test = test\<lparr>t_loc := get_loc_name (t_loc test)\<rparr>"

definition normalize_block :: "TestBlock \<Rightarrow> TestBlock" where
  "normalize_block block =
     block\<lparr>b_loc := get_loc_name (b_loc block), b_tests := map normalize_test (b_tests block)\<rparr>"

definition normalize_code_names :: "Evaluation \<Rightarrow> Evaluation" where
  "normalize_code_names evaluation =
     (case e_result evaluation of
        Ok blocks \<Rightarrow> evaluation\<lparr>e_result := Ok (map normalize_block blocks)\<rparr>
      | Err k \<Rightarrow> evaluation)"

section \<open>Failure detector\<close>

text \<open>
  The two nested loops of \<^verbatim>\<open>get_invalid_tests_and_blocks\<close>, with the two arrays that they
  push to as accumulators.
\<close>

fun scan_tests :: "TestBlock \<Rightarrow> TestAndBlock list \<Rightarrow> Test list \<Rightarrow> TestAndBlock list" where
  "scan_tests block invalid_tests [] = invalid_tests"
| "scan_tests block invalid_tests (test # rest) =
     scan_tests block
       (if \<not> t_passed test then invalid_tests @ [\<lparr>tb_test = test, tb_block = block\<rparr>]
        else invalid_tests)
       rest"

fun scan_blocks ::
  "TestAndBlock list \<Rightarrow> TestBlock list \<Rightarrow> TestBlock list \<Rightarrow> TestAndBlock list \<times> TestBlock list"
where
  "scan_blocks invalid_tests invalid_blocks [] = (invalid_tests, invalid_blocks)"
| "scan_blocks invalid_tests invalid_blocks (block # rest) =
     scan_blocks
       (scan_tests block invalid_tests (b_tests block))
       (if b_error block then invalid_blocks @ [block] else invalid_blocks)
       rest"

definition get_invalid_tests_and_blocks :: "Evaluation \<Rightarrow> TestFailureReport" where
  "get_invalid_tests_and_blocks wheat =
     (case e_result wheat of
        Err k \<Rightarrow> \<lparr>success = ErrF, failures = None\<rparr>
      | Ok blocks \<Rightarrow>
          (case scan_blocks [] [] blocks of
             (invalid_tests, invalid_blocks) \<Rightarrow>
               if length invalid_tests = 0 \<and> length invalid_blocks = 0
               then \<lparr>success = Pass, failures = None\<rparr>
               else \<lparr>success = Fail,
                     failures = Some \<lparr>f_tests = invalid_tests, f_blocks = invalid_blocks\<rparr>\<rparr>))"

section \<open>Student-facing (examplar) reports\<close>

text \<open>The double quote of the report texts, and \<^verbatim>\<open>Array.prototype.join\<close>.\<close>

abbreviation dq :: string where
  "dq \<equiv> [CHR 0x22]"

fun join_js :: "string \<Rightarrow> string list \<Rightarrow> string" where
  "join_js sep [] = []"
| "join_js sep [x] = x"
| "join_js sep (x # y # zs) = x @ sep @ join_js sep (y # zs)"

definition wheat_block_message :: "TestBlock \<Rightarrow> string" where
  "wheat_block_message block =
     ''Block '' @ dq @ b_name block @ dq @ '' at lines '' @
     show_opt (get_line_number (b_loc block)) @ '' raised an error.''"

definition wheat_test_message :: "TestAndBlock \<Rightarrow> string" where
  "wheat_test_message test =
     ''Test failed in block '' @ dq @ b_name (tb_block test) @ dq @ '' at lines '' @
     show_opt (get_line_number (b_loc (tb_block test))) @ ''; '' @
     ''Test location: '' @ show_opt (get_line_number (t_loc (tb_test test)))"

text \<open>
  \<^verbatim>\<open>generate_wheat_messages\<close>, split at its first statement: \<open>wheat_messages_of\<close> is
  the body after \<^verbatim>\<open>test_report\<close> has been computed. Reading \<^verbatim>\<open>invalids.blocks\<close> when
  \<^verbatim>\<open>failures\<close> is absent is a \<^verbatim>\<open>TypeError\<close>. The \<^verbatim>\<open>Fail\<close> branch returns
  \<^verbatim>\<open>valid: true\<close>, as the source does.
\<close>

definition wheat_messages_of :: "TestFailureReport \<Rightarrow> Evaluation \<Rightarrow> exn + WheatMessagesReport" where
  "wheat_messages_of test_report wheat_result =
     (case success test_report of
        Pass \<Rightarrow> Inr \<lparr>valid = True, messages = None\<rparr>
      | ErrF \<Rightarrow>
          Inr \<lparr>valid = False,
               messages = Some [''Wheat errored; '' @ show_result_Err (e_result wheat_result)]\<rparr>
      | Fail \<Rightarrow>
          (case failures test_report of
             None \<Rightarrow> Inl TypeError
           | Some invalids \<Rightarrow>
               (let msgs = map wheat_block_message (f_blocks invalids) @
                           map wheat_test_message (f_tests invalids)
                in if length msgs = 0
                   then Inl (Thrown ''Contact instructor; Wheat failed, but no reason given.'')
                   else Inr \<lparr>valid = True, messages = Some msgs\<rparr>)))"

definition generate_wheat_messages :: "Evaluation \<Rightarrow> exn + WheatMessagesReport" where
  "generate_wheat_messages wheat_result =
     wheat_messages_of (get_invalid_tests_and_blocks wheat_result) wheat_result"

text \<open>The loop of \<^verbatim>\<open>generate_examplar_wheat_report\<close> over the wheats.\<close>

fun collect_wheat_messages ::
  "WheatMessagesReport \<Rightarrow> Evaluation list \<Rightarrow> exn + WheatMessagesReport"
where
  "collect_wheat_messages full_wheat_report [] = Inr full_wheat_report"
| "collect_wheat_messages full_wheat_report (wheat_result # rest) =
     (case generate_wheat_messages wheat_result of
        Inl e \<Rightarrow> Inl e
      | Inr wheat_report \<Rightarrow>
          if \<not> valid wheat_report then
            (case (messages full_wheat_report, messages wheat_report) of
               (Some have, Some new) \<Rightarrow>
                 collect_wheat_messages \<lparr>valid = False, messages = Some (have @ new)\<rparr> rest
             | _ \<Rightarrow> Inl TypeError)
          else collect_wheat_messages full_wheat_report rest)"

text \<open>
  \<^verbatim>\<open>messages.filter((v, i) => messages.indexOf(v) === i)\<close>: \<^verbatim>\<open>indexOf\<close> gives the first
  index of a value, or \<open>-1\<close>.
\<close>

fun indexOf_from :: "nat \<Rightarrow> 'a list \<Rightarrow> 'a \<Rightarrow> int" where
  "indexOf_from i [] v = - 1"
| "indexOf_from i (x # xs) v = (if x = v then int i else indexOf_from (Suc i) xs v)"

definition indexOf :: "'a list \<Rightarrow> 'a \<Rightarrow> int" where
  "indexOf xs v = indexOf_from 0 xs v"

fun filter_indexed :: "('a \<Rightarrow> nat \<Rightarrow> bool) \<Rightarrow> nat \<Rightarrow> 'a list \<Rightarrow> 'a list" where
  "filter_indexed p i [] = []"
| "filter_indexed p i (x # xs) =
     (if p x i then x # filter_indexed p (Suc i) xs else filter_indexed p (Suc i) xs)"

definition remove_duplicates :: "string list \<Rightarrow> string list" where
  "remove_duplicates msgs = filter_indexed (\<lambda>v i. indexOf msgs v = int i) 0 msgs"

definition examplar_report ::
  "string \<Rightarrow> string \<Rightarrow> ReportSection \<Rightarrow> 'n GradescopeTestReport"
where
  "examplar_report name output section =
     \<lparr>r_name = name, r_output = output, r_score = None, r_max_score = None,
      r_visibility = Visible, r_section = section, r_type = Examplar\<rparr>"

definition generate_examplar_wheat_report :: "Evaluation list \<Rightarrow> exn + 'n GradescopeTestReport" where
  "generate_examplar_wheat_report wheat_results =
     (case collect_wheat_messages \<lparr>valid = True, messages = Some []\<rparr> wheat_results of
        Inl e \<Rightarrow> Inl e
      | Inr full_wheat_report \<Rightarrow>
          if valid full_wheat_report then
            Inr (examplar_report ''VALID''
                   ''These tests are valid and consistent with the assignment handout.'' Wheat)
          else
            (case messages full_wheat_report of
               None \<Rightarrow> Inl TypeError
             | Some msgs \<Rightarrow>
                 Inr (examplar_report ''INVALID''
                        (''Your test suite failed at least one of our wheats.\<newline>'' @
                         join_js ''\<newline>'' (remove_duplicates msgs))
                        Wheat)))"

definition chaff_block_message :: "TestBlock \<Rightarrow> string" where
  "chaff_block_message block =
     ''Block '' @ dq @ b_name block @ dq @ '' at lines '' @
     show_opt (get_line_number (b_loc block)) @ '' raised an error.''"

definition chaff_test_message :: "TestAndBlock \<Rightarrow> string" where
  "chaff_test_message test =
     ''Test block: '' @ dq @ b_name (tb_block test) @ dq @ ''; Test lines: '' @
     show_opt (get_line_number (t_loc (tb_test test)))"

text \<open>
  \<^verbatim>\<open>generate_examplar_chaff_report\<close>, split at its first statement like
  \<open>generate_wheat_messages\<close>.
\<close>

definition examplar_chaff_of ::
  "TestFailureReport \<Rightarrow> Evaluation \<Rightarrow> nat \<Rightarrow> exn + 'n GradescopeTestReport"
where
  "examplar_chaff_of test_report chaff_result chaff_number =
     (case success test_report of
        Pass \<Rightarrow>
          Inr (examplar_report (''Chaff number '' @ show_nat chaff_number @ '' not caught.'') [] Chaff)
      | ErrF \<Rightarrow>
          Inr (examplar_report (''Chaff number '' @ show_nat chaff_number @ '' caught!'')
                 (''Chaff errored: '' @ show_result_Err (e_result chaff_result) @ ''.\<newline>'' @
                  ''Note that this means you are not testing defensively.'')
                 Chaff)
      | Fail \<Rightarrow>
          (case failures test_report of
             None \<Rightarrow> Inl TypeError
           | Some invalids \<Rightarrow>
               (let msgs = map chaff_block_message (f_blocks invalids) @
                           map chaff_test_message (f_tests invalids)
                in if length msgs = 0
                   then Inl (Thrown ''Contact instructor; Chaff failed, but no reason given.'')
                   else Inr (examplar_report
                               (''Chaff number '' @ show_nat chaff_number @ '' caught!'')
                               (''The following tests caught this chaff:\<newline>'' @
                                join_js ''\<newline>'' msgs)
                               Chaff))))"

definition generate_examplar_chaff_report ::
  "Evaluation \<Rightarrow> nat \<Rightarrow> exn + 'n GradescopeTestReport"
where
  "generate_examplar_chaff_report chaff_result chaff_number =
     examplar_chaff_of (get_invalid_tests_and_blocks chaff_result) chaff_result chaff_number"

section \<open>Detailed reports\<close>

definition detailed_report ::
  "string \<Rightarrow> string \<Rightarrow> 'n \<Rightarrow> Visibility \<Rightarrow> ReportSection \<Rightarrow> ('n::one) GradescopeTestReport"
where
  "detailed_report name output score vis section =
     \<lparr>r_name = name, r_output = output, r_score = Some score, r_max_score = Some 1,
      r_visibility = vis, r_section = section, r_type = Detailed\<rparr>"

text \<open>One iteration of the block loop of \<^verbatim>\<open>generate_functionality_report\<close>.\<close>

definition functionality_block_report :: "TestBlock \<Rightarrow> ('n::{zero,one}) GradescopeTestReport" where
  "functionality_block_report block =
     (let (output, score) =
            (if b_error block then (''Block errored.'', 0)
             else
               (let total_tests = length (b_tests block);
                    passed_tests = length (filter t_passed (b_tests block))
                in if passed_tests = total_tests
                   then (''Passed all '' @ show_nat total_tests @ '' tests in this block!'', 1)
                   else (''Missing '' @ show_nat (total_tests - passed_tests) @
                         '' tests in this block'', 0)))
      in detailed_report (''Test: '' @ dq @ b_name block @ dq) output score
           AfterPublished Functionality)"

definition generate_functionality_report ::
  "Evaluation \<Rightarrow> ('n::{zero,one}) GradescopeTestReport list"
where
  "generate_functionality_report test_result =
     (case e_result test_result of
        Err k \<Rightarrow>
          [detailed_report (get_code_file_name test_result) (''Error: '' @ show_ErrKind k) 0
             Visible Functionality]
      | Ok blocks \<Rightarrow> map functionality_block_report blocks)"

text \<open>
  \<^verbatim>\<open>generate_detailed_wheat_report\<close>, split at its first statement. The loop over the
  failing tests appends to \<^verbatim>\<open>output\<close> (\<^verbatim>\<open>+=\<close>); the loop over the errored blocks
  assigns it (\<^verbatim>\<open>=\<close>).
\<close>

definition detailed_wheat_test_line :: "string \<Rightarrow> TestAndBlock \<Rightarrow> string" where
  "detailed_wheat_test_line output test =
     output @ ''Wheat failed test in block '' @ dq @ b_name (tb_block test) @ dq @
     '' at location '' @ t_loc (tb_test test) @ ''\<newline>''"

definition detailed_wheat_block_line :: "string \<Rightarrow> TestBlock \<Rightarrow> string" where
  "detailed_wheat_block_line output block =
     ''Wheat caused error in block '' @ dq @ b_name block @ dq @ ''\<newline>''"

definition detailed_wheat_of ::
  "TestFailureReport \<Rightarrow> Evaluation \<Rightarrow> exn + ('n::{zero,one}) GradescopeTestReport"
where
  "detailed_wheat_of test_report wheat_result =
     (let name = ''Wheat: '' @ get_code_file_name wheat_result in
      case success test_report of
        Pass \<Rightarrow> Inr (detailed_report name ''Passed wheat!'' 1 AfterPublished Wheat)
      | ErrF \<Rightarrow>
          Inr (detailed_report name
                 (''Wheat errored; '' @ show_result_Err (e_result wheat_result)) 0
                 AfterPublished Wheat)
      | Fail \<Rightarrow>
          (case failures test_report of
             None \<Rightarrow> Inl TypeError
           | Some invalids \<Rightarrow>
               (let output = foldl detailed_wheat_test_line [] (f_tests invalids);
                    output = foldl detailed_wheat_block_line output (f_blocks invalids)
                in if output = []
                   then Inl (Thrown ''Wheat failed but no reason given.'')
                   else Inr (detailed_report name output 0 AfterPublished Wheat))))"

definition generate_detailed_wheat_report ::
  "Evaluation \<Rightarrow> exn + ('n::{zero,one}) GradescopeTestReport"
where
  "generate_detailed_wheat_report wheat_result =
     detailed_wheat_of (get_invalid_tests_and_blocks wheat_result) wheat_result"

text \<open>
  \<^verbatim>\<open>generate_detailed_chaff_report\<close>. Its first part walks the wheats and collects the
  failing tests and errored blocks; for every report that is not \<^verbatim>\<open>Pass\<close> it reads
  \<^verbatim>\<open>invalids.tests\<close>, a \<^verbatim>\<open>TypeError\<close> when \<^verbatim>\<open>failures\<close> is absent.
\<close>

fun collect_invalids ::
  "Test list \<Rightarrow> TestBlock list \<Rightarrow> Evaluation list \<Rightarrow> exn + (Test list \<times> TestBlock list)"
where
  "collect_invalids all_invalid_tests all_invalid_blocks [] =
     Inr (all_invalid_tests, all_invalid_blocks)"
| "collect_invalids all_invalid_tests all_invalid_blocks (wheat_result # rest) =
     (let test_report = get_invalid_tests_and_blocks wheat_result
      in if success test_report \<noteq> Pass then
           (case failures test_report of
              None \<Rightarrow> Inl TypeError
            | Some invalids \<Rightarrow>
                collect_invalids
                  (all_invalid_tests @ map tb_test (f_tests invalids))
                  (all_invalid_blocks @ f_blocks invalids)
                  rest)
         else collect_invalids all_invalid_tests all_invalid_blocks rest)"

definition all_invalid_locs_of :: "Test list \<Rightarrow> TestBlock list \<Rightarrow> string list" where
  "all_invalid_locs_of all_invalid_tests all_invalid_blocks =
     map t_loc all_invalid_tests @ map b_loc all_invalid_blocks"

record 'n ScoreAndOutput =
  so_output :: string
  so_score :: 'n

text \<open>
  The loops of the closure that \<^verbatim>\<open>generate_detailed_chaff_report\<close> returns. A
  \<^verbatim>\<open>return\<close> inside a loop is \<open>Some\<close>; \<open>None\<close> lets the loop go on.
\<close>

fun chaff_scan_tests ::
  "string list \<Rightarrow> TestBlock \<Rightarrow> Test list \<Rightarrow> ('n::one) ScoreAndOutput option"
where
  "chaff_scan_tests all_invalid_locs block [] = None"
| "chaff_scan_tests all_invalid_locs block (test # rest) =
     (if \<not> t_passed test \<and> t_loc test \<notin> set all_invalid_locs
      then Some \<lparr>so_output = ''Chaff caught; test failed in block '' @ dq @ b_name block @ dq @ ''!'',
                 so_score = 1\<rparr>
      else chaff_scan_tests all_invalid_locs block rest)"

fun chaff_scan_blocks :: "string list \<Rightarrow> TestBlock list \<Rightarrow> ('n::{zero,one}) ScoreAndOutput" where
  "chaff_scan_blocks all_invalid_locs [] = \<lparr>so_output = ''Chaff not caught.'', so_score = 0\<rparr>"
| "chaff_scan_blocks all_invalid_locs (block # rest) =
     (if b_error block \<and> b_loc block \<notin> set all_invalid_locs
      then \<lparr>so_output = ''Chaff caught; error in block '' @ dq @ b_name block @ dq @ ''!'',
            so_score = 1\<rparr>
      else (case chaff_scan_tests all_invalid_locs block (b_tests block) of
              Some res \<Rightarrow> res
            | None \<Rightarrow> chaff_scan_blocks all_invalid_locs rest))"

definition get_score_and_output ::
  "string list \<Rightarrow> Evaluation \<Rightarrow> ('n::{zero,one}) ScoreAndOutput"
where
  "get_score_and_output all_invalid_locs chaff_result =
     (case e_result chaff_result of
        Err k \<Rightarrow> \<lparr>so_output = ''Chaff caught; error: '' @ show_ErrKind k @ ''!'', so_score = 1\<rparr>
      | Ok blocks \<Rightarrow> chaff_scan_blocks all_invalid_locs blocks)"

definition detailed_chaff_closure ::
  "string list \<Rightarrow> Evaluation \<Rightarrow> ('n::{zero,one}) GradescopeTestReport"
where
  "detailed_chaff_closure all_invalid_locs chaff_result =
     (let result = get_score_and_output all_invalid_locs chaff_result
      in detailed_report (''Chaff: '' @ get_code_file_name chaff_result)
           (so_output result) (so_score result) AfterPublished Chaff)"

definition generate_detailed_chaff_report ::
  "Evaluation list \<Rightarrow> exn + (Evaluation \<Rightarrow> ('n::{zero,one}) GradescopeTestReport)"
where
  "generate_detailed_chaff_report wheat_results =
     (case collect_invalids [] [] wheat_results of
        Inl e \<Rightarrow> Inl e
      | Inr (all_invalid_tests, all_invalid_blocks) \<Rightarrow>
          Inr (detailed_chaff_closure (all_invalid_locs_of all_invalid_tests all_invalid_blocks)))"

section \<open>Score reports\<close>

text \<open>
  \<^verbatim>\<open>report.score === report.max_score\<close> on two optional numbers: two absent values are
  equal, an absent value and a number are not, and two numbers are compared by \<open>same\<close>,
  the \<^verbatim>\<open>===\<close> of JavaScript numbers.
\<close>

definition strict_equal :: "('n \<Rightarrow> 'n \<Rightarrow> bool) \<Rightarrow> 'n option \<Rightarrow> 'n option \<Rightarrow> bool" where
  "strict_equal same a b =
     (case a of
        None \<Rightarrow> (case b of None \<Rightarrow> True | Some y \<Rightarrow> False)
      | Some x \<Rightarrow> (case b of None \<Rightarrow> False | Some y \<Rightarrow> same x y))"

text \<open>
  The loop of \<^verbatim>\<open>generate_score_report\<close>; \<open>add\<close> is the \<^verbatim>\<open>+\<close> of JavaScript numbers, so
  \<^verbatim>\<open>total_score += x\<close> is \<open>add total_score x\<close>.
\<close>

fun score_loop ::
  "('n \<Rightarrow> 'n \<Rightarrow> 'n) \<Rightarrow> ('n \<Rightarrow> 'n \<Rightarrow> bool) \<Rightarrow> (string \<rightharpoonup> 'n) \<Rightarrow> 'n \<Rightarrow> 'n
     \<Rightarrow> ('n::{zero,one}) GradescopeTestReport list \<Rightarrow> 'n \<times> 'n"
where
  "score_loop add same point_values total_score possible_score [] =
     (total_score, possible_score)"
| "score_loop add same point_values total_score possible_score (report # rest) =
     (let points = (case point_values (r_name report) of Some p \<Rightarrow> p | None \<Rightarrow> 1)
      in score_loop add same point_values
           (add total_score
              (if strict_equal same (r_score report) (r_max_score report) then points else 0))
           (add possible_score points)
           rest)"

definition generate_score_report ::
  "('n \<Rightarrow> 'n \<Rightarrow> 'n) \<Rightarrow> ('n \<Rightarrow> 'n \<Rightarrow> bool) \<Rightarrow> ('n::{zero,one}) GradescopeTestReport list
     \<Rightarrow> (string \<rightharpoonup> 'n) \<Rightarrow> string \<Rightarrow> ReportSection \<Rightarrow> 'n GradescopeTestReport"
where
  "generate_score_report add same reports point_values name section =
     (case score_loop add same point_values 0 0 reports of
        (total_score, possible_score) \<Rightarrow>
          \<lparr>r_name = ''Score: '' @ name, r_output = [], r_score = Some total_score,
           r_max_score = Some possible_score, r_visibility = Hidden, r_section = section,
           r_type = Score\<rparr>)"

section \<open>Report generation in \<^verbatim>\<open>main\<close>\<close>

record ExamplarConfig =
  useWheats :: bool
  chaffs :: "string list option"

text \<open>A loop that calls a throwing function on every element stops at the first throw.\<close>

fun map_exn :: "('a \<Rightarrow> exn + 'b) \<Rightarrow> 'a list \<Rightarrow> exn + 'b list" where
  "map_exn f [] = Inr []"
| "map_exn f (x # xs) =
     (case f x of
        Inl e \<Rightarrow> Inl e
      | Inr y \<Rightarrow> (case map_exn f xs of Inl e \<Rightarrow> Inl e | Inr ys \<Rightarrow> Inr (y # ys)))"

text \<open>\<^verbatim>\<open>examplar_chaff_results.forEach((result, index) => ...)\<close>.\<close>

fun examplar_chaff_reports ::
  "nat \<Rightarrow> Evaluation list \<Rightarrow> exn + 'n GradescopeTestReport list"
where
  "examplar_chaff_reports index [] = Inr []"
| "examplar_chaff_reports index (result # rest) =
     (case generate_examplar_chaff_report result index of
        Inl e \<Rightarrow> Inl e
      | Inr report \<Rightarrow>
          (case examplar_chaff_reports (Suc index) rest of
             Inl e \<Rightarrow> Inl e
           | Inr reports \<Rightarrow> Inr (report # reports)))"

definition examplar_reports_of ::
  "ExamplarConfig option \<Rightarrow> Evaluation list \<Rightarrow> Evaluation list
     \<Rightarrow> exn + 'n GradescopeTestReport list"
where
  "examplar_reports_of examplar_config wheat_results chaff_results =
     (case examplar_config of
        None \<Rightarrow> Inr []
      | Some config \<Rightarrow>
          if useWheats config then
            (case generate_examplar_wheat_report wheat_results of
               Inl e \<Rightarrow> Inl e
             | Inr wheat_report \<Rightarrow>
                 if r_name wheat_report = ''VALID'' then
                   (let examplar_chaff_results =
                          (case chaffs config of
                             None \<Rightarrow> chaff_results
                           | Some names \<Rightarrow>
                               filter (\<lambda>result. get_code_file_name result \<in> set names)
                                 chaff_results)
                    in case examplar_chaff_reports 0 examplar_chaff_results of
                         Inl e \<Rightarrow> Inl e
                       | Inr reports \<Rightarrow> Inr (wheat_report # reports))
                 else Inr [wheat_report])
          else Inr [])"

text \<open>
  The block of \<^verbatim>\<open>main\<close> that builds the detailed and the score reports. The argument
  \<^verbatim>\<open>generate_detailed_chaff_report(wheat_results)\<close> of \<^verbatim>\<open>chaff_results.map\<close> is evaluated
  whether or not there is a chaff.
\<close>

definition detailed_and_score_reports ::
  "('n \<Rightarrow> 'n \<Rightarrow> 'n) \<Rightarrow> ('n \<Rightarrow> 'n \<Rightarrow> bool) \<Rightarrow> 'n PointData
     \<Rightarrow> Evaluation list \<Rightarrow> Evaluation list \<Rightarrow> Evaluation list
     \<Rightarrow> exn + (('n::{zero,one}) GradescopeTestReport list \<times> 'n GradescopeTestReport list)"
where
  "detailed_and_score_reports add same point_values test_results wheat_results chaff_results =
     (let detailed_test_reports = map generate_functionality_report test_results in
      case map_exn generate_detailed_wheat_report wheat_results of
        Inl e \<Rightarrow> Inl e
      | Inr detailed_wheat_reports \<Rightarrow>
          (case generate_detailed_chaff_report wheat_results of
             Inl e \<Rightarrow> Inl e
           | Inr chaff_reporter \<Rightarrow>
               (let detailed_chaff_reports = map chaff_reporter chaff_results;
                    detailed_reports =
                      concat detailed_test_reports @ detailed_wheat_reports @ detailed_chaff_reports;
                    functionality_scores =
                      map (\<lambda>report. generate_score_report add same report
                                       (functionality point_values)
                                       ''functionality'' Functionality)
                        detailed_test_reports;
                    wheat_score =
                      generate_score_report add same detailed_wheat_reports
                        (testing point_values)
                        ''wheats'' Wheat;
                    chaff_score =
                      generate_score_report add same detailed_chaff_reports
                        (testing point_values)
                        ''chaffs'' Chaff;
                    score_reports = functionality_scores @ [wheat_score] @ [chaff_score]
                in Inr (detailed_reports, score_reports))))"

text \<open>
  \<^verbatim>\<open>main\<close> from the partitioned evaluations to \<^verbatim>\<open>all_reports\<close>: normalize every
  evaluation, then the examplar reports, then the detailed and score reports.
\<close>

definition all_reports_of ::
  "('n \<Rightarrow> 'n \<Rightarrow> 'n) \<Rightarrow> ('n \<Rightarrow> 'n \<Rightarrow> bool) \<Rightarrow> ExamplarConfig option \<Rightarrow> 'n PointData
     \<Rightarrow> Evaluation list \<Rightarrow> Evaluation list \<Rightarrow> Evaluation list
     \<Rightarrow> exn + ('n::{zero,one}) GradescopeTestReport list"
where
  "all_reports_of add same examplar_config point_values test_results0 wheat_results0
     chaff_results0 =
     (let test_results = map normalize_code_names test_results0;
          wheat_results = map normalize_code_names wheat_results0;
          chaff_results = map normalize_code_names chaff_results0
      in case examplar_reports_of examplar_config wheat_results chaff_results of
           Inl e \<Rightarrow> Inl e
         | Inr examplar_reports \<Rightarrow>
             (case detailed_and_score_reports add same point_values test_results wheat_results
                     chaff_results of
                Inl e \<Rightarrow> Inl e
              | Inr (detailed_reports, score_reports) \<Rightarrow>
                  Inr (examplar_reports @ detailed_reports @ score_reports)))"

section \<open>Notions used to state the properties\<close>

text \<open>The text of a location after its last \<^verbatim>\<open>/\<close>; the whole text when it has none.\<close>

definition after_last_slash :: "string \<Rightarrow> string" where
  "after_last_slash s = rev (takeWhile (\<lambda>c. c \<noteq> CHR ''/'') (rev s))"

definition result_is_Err :: "Result \<Rightarrow> bool" where
  "result_is_Err r = (case r of Err k \<Rightarrow> True | Ok bs \<Rightarrow> False)"

text \<open>
  The known-bad location set: every location of a failing test or errored block that a
  wheat's failure report lists, over all wheats.
\<close>

definition report_locs :: "TestFailureReport \<Rightarrow> string set" where
  "report_locs r =
     (case failures r of
        None \<Rightarrow> {}
      | Some invalids \<Rightarrow>
          (\<lambda>tb. t_loc (tb_test tb)) ` set (f_tests invalids) \<union> b_loc ` set (f_blocks invalids))"

definition known_bad_locs :: "Evaluation list \<Rightarrow> string set" where
  "known_bad_locs wheat_results =
     (\<Union>wheat \<in> set wheat_results. report_locs (get_invalid_tests_and_blocks wheat))"

text \<open>The failing tests and errored blocks of a report, and the list of their locations.\<close>

definition report_tests :: "TestFailureReport \<Rightarrow> Test list" where
  "report_tests r = (case failures r of None \<Rightarrow> [] | Some invalids \<Rightarrow> map tb_test (f_tests invalids))"

definition report_blocks :: "TestFailureReport \<Rightarrow> TestBlock list" where
  "report_blocks r = (case failures r of None \<Rightarrow> [] | Some invalids \<Rightarrow> f_blocks invalids)"

definition known_bad_list :: "Evaluation list \<Rightarrow> string list" where
  "known_bad_list wheat_results =
     map t_loc (concat (map (\<lambda>wheat. report_tests (get_invalid_tests_and_blocks wheat))
                          wheat_results)) @
     map b_loc (concat (map (\<lambda>wheat. report_blocks (get_invalid_tests_and_blocks wheat))
                          wheat_results))"

text \<open>The messages of the wheats whose result is \<open>Err\<close>, in order.\<close>

definition err_messages :: "Evaluation list \<Rightarrow> string list" where
  "err_messages wheat_results =
     concat (map (\<lambda>wheat. case e_result wheat of
                             Err k \<Rightarrow> [''Wheat errored; '' @ show_ErrKind k]
                           | Ok blocks \<Rightarrow> []) wheat_results)"

text \<open>A failure of a chaff that the known-bad set does not mask.\<close>

definition unmasked_error :: "string set \<Rightarrow> TestBlock \<Rightarrow> bool" where
  "unmasked_error known_bad block = (b_error block \<and> b_loc block \<notin> known_bad)"

definition unmasked_failing_test :: "string set \<Rightarrow> Test \<Rightarrow> bool" where
  "unmasked_failing_test known_bad test = (\<not> t_passed test \<and> t_loc test \<notin> known_bad)"

definition has_unmasked_failure :: "string set \<Rightarrow> TestBlock \<Rightarrow> bool" where
  "has_unmasked_failure known_bad block =
     (unmasked_error known_bad block \<or>
      list_ex (unmasked_failing_test known_bad) (b_tests block))"

text \<open>The failing tests of a block list, each with its block, and the errored blocks.\<close>

definition failing_pairs :: "TestBlock list \<Rightarrow> TestAndBlock list" where
  "failing_pairs blocks =
     concat (map (\<lambda>block. map (\<lambda>test. \<lparr>tb_test = test, tb_block = block\<rparr>)
                            (filter (\<lambda>test. \<not> t_passed test) (b_tests block))) blocks)"

definition errored_blocks :: "TestBlock list \<Rightarrow> TestBlock list" where
  "errored_blocks blocks = filter b_error blocks"

text \<open>A list with every repeated element dropped, the first occurrences kept in order.\<close>

fun keep_new :: "'a list \<Rightarrow> 'a list \<Rightarrow> 'a list" where
  "keep_new seen [] = []"
| "keep_new seen (x # xs) =
     (if x \<in> set seen then keep_new seen xs else x # keep_new (seen @ [x]) xs)"

definition first_occurrences :: "'a list \<Rightarrow> 'a list" where
  "first_occurrences xs = keep_new [] xs"

text \<open>
  The weight of a report, what it adds to the achieved total, and the two totals: the
  numbers are added to \<open>0\<close> one after the other, in the order of the reports.
\<close>

definition weight :: "(string \<rightharpoonup> 'n) \<Rightarrow> ('n::one) GradescopeTestReport \<Rightarrow> 'n" where
  "weight point_values report =
     (case point_values (r_name report) of Some p \<Rightarrow> p | None \<Rightarrow> 1)"

definition credit ::
  "('n \<Rightarrow> 'n \<Rightarrow> bool) \<Rightarrow> (string \<rightharpoonup> 'n) \<Rightarrow> ('n::{zero,one}) GradescopeTestReport \<Rightarrow> 'n"
where
  "credit same point_values report =
     (if strict_equal same (r_score report) (r_max_score report)
      then weight point_values report else 0)"

definition achieved ::
  "('n \<Rightarrow> 'n \<Rightarrow> 'n) \<Rightarrow> ('n \<Rightarrow> 'n \<Rightarrow> bool) \<Rightarrow> (string \<rightharpoonup> 'n)
     \<Rightarrow> ('n::{zero,one}) GradescopeTestReport list \<Rightarrow> 'n"
where
  "achieved add same point_values reports =
     foldl (\<lambda>tot report. add tot (credit same point_values report)) 0 reports"

definition possible ::
  "('n \<Rightarrow> 'n \<Rightarrow> 'n) \<Rightarrow> (string \<rightharpoonup> 'n) \<Rightarrow> ('n::{zero,one}) GradescopeTestReport list \<Rightarrow> 'n"
where
  "possible add point_values reports =
     foldl (\<lambda>tot report. add tot (weight point_values report)) 0 reports"

subsection \<open>Sample inputs\<close>

definition failing_test :: Test where
  "failing_test = \<lparr>t_loc = ''tests.arr:3:2-3:20'', t_passed = False\<rparr>"

definition passing_test :: Test where
  "passing_test = \<lparr>t_loc = ''tests.arr:4:2-4:20'', t_passed = True\<rparr>"

definition block_A :: TestBlock where
  "block_A = \<lparr>b_name = ''A'', b_loc = ''tests.arr:2:0-5:3'', b_error = False,
              b_tests = [failing_test, passing_test]\<rparr>"

definition block_B :: TestBlock where
  "block_B = \<lparr>b_name = ''B'', b_loc = ''tests.arr:7:0-9:3'', b_error = True, b_tests = []\<rparr>"

definition block_C :: TestBlock where
  "block_C = \<lparr>b_name = ''C'', b_loc = ''tests.arr:11:0-13:3'', b_error = False,
              b_tests = [passing_test]\<rparr>"

definition eval_of :: "string \<Rightarrow> Result \<Rightarrow> Evaluation" where
  "eval_of code result = \<lparr>e_code = code, e_tests = ''x;tests/tests.arr'', e_result = result\<rparr>"

definition wheat_pass :: Evaluation where
  "wheat_pass = eval_of ''/autograder/wheats/w0.arr'' (Ok [block_C])"

definition wheat_block_error :: Evaluation where
  "wheat_block_error = eval_of ''/autograder/wheats/w1.arr'' (Ok [block_B])"

definition wheat_test_and_block :: Evaluation where
  "wheat_test_and_block = eval_of ''/autograder/wheats/w2.arr'' (Ok [block_A, block_B])"

definition wheat_timeout :: Evaluation where
  "wheat_timeout = eval_of ''/autograder/wheats/w3.arr'' (Err Timeout)"

definition chaff_test_then_error :: Evaluation where
  "chaff_test_then_error = eval_of ''/autograder/chaffs/c1.arr'' (Ok [block_A, block_B])"

definition chaff_runtime :: Evaluation where
  "chaff_runtime = eval_of ''/autograder/chaffs/c2.arr'' (Err Runtime)"

text \<open>The location of the comment above \<^verbatim>\<open>get_loc_name\<close>, and a wheat before normalization.\<close>

definition doc_loc :: string where
  "doc_loc =
     ''file:///autograder/results/docdiff-wheat-2017.arr;docdiff-tests.arr/tests.arr:8:0-19:3''"

definition wheat_raw :: Evaluation where
  "wheat_raw =
     eval_of ''/autograder/wheats/w4.arr''
       (Ok [\<lparr>b_name = ''D'', b_loc = doc_loc, b_error = False,
             b_tests = [\<lparr>t_loc = ''file:///r/w4.arr;t.arr/tests.arr:9:2-9:30'',
                         t_passed = True\<rparr>]\<rparr>])"

definition report_a :: "('n::{zero,one}) GradescopeTestReport" where
  "report_a = detailed_report ''a'' [] 1 AfterPublished Wheat"

definition report_b :: "('n::{zero,one}) GradescopeTestReport" where
  "report_b = detailed_report ''b'' [] 0 AfterPublished Wheat"

definition points_ab :: "'n \<Rightarrow> 'n \<Rightarrow> (string \<rightharpoonup> 'n)" where
  "points_ab two three = [''a'' \<mapsto> two, ''b'' \<mapsto> three]"

section \<open>Split and location lemmas\<close>

lemma split_js_nonempty: "sep \<noteq> [] \<Longrightarrow> split_js sep s \<noteq> []"
  by (induction sep s rule: split_js.induct) (auto split: list.splits)

lemma takeWhile_snoc_stop: "\<not> P x \<Longrightarrow> takeWhile P (xs @ [x]) = takeWhile P xs"
  by (induction xs) auto

lemma after_last_slash_Cons_slash: "after_last_slash (CHR ''/'' # cs) = after_last_slash cs"
  by (simp add: after_last_slash_def takeWhile_snoc_stop)

lemma after_last_slash_no_slash: "CHR ''/'' \<notin> set s \<Longrightarrow> after_last_slash s = s"
  unfolding after_last_slash_def
  by (subst takeWhile_eq_all_conv[THEN iffD2]) auto

lemma after_last_slash_Cons_other:
  "CHR ''/'' \<in> set cs \<Longrightarrow> after_last_slash (c # cs) = after_last_slash cs"
  by (simp add: after_last_slash_def takeWhile_append1)

lemma slash_free_after_last_slash: "CHR ''/'' \<notin> set (after_last_slash s)"
  by (auto simp: after_last_slash_def dest: set_takeWhileD)

lemma split_slash:
  "(CHR ''/'' \<notin> set s \<longrightarrow> split_js ''/'' s = [s]) \<and>
   (CHR ''/'' \<in> set s \<longrightarrow> (\<exists>p q qs. split_js ''/'' s = p # q # qs)) \<and>
   last (split_js ''/'' s) = after_last_slash s"
proof (induction s)
  case Nil
  show ?case by (simp add: after_last_slash_def)
next
  case (Cons c cs)
  show ?case
  proof (cases "c = CHR ''/''")
    case True
    obtain p ps where ps: "split_js ''/'' cs = p # ps"
      using split_js_nonempty[of "''/''" cs] by (cases "split_js ''/'' cs") auto
    show ?thesis using Cons True ps
      by (simp add: starts_with_def after_last_slash_Cons_slash)
  next
    case False
    show ?thesis
    proof (cases "CHR ''/'' \<in> set cs")
      case True
      then obtain p q qs where ps: "split_js ''/'' cs = p # q # qs" using Cons by auto
      show ?thesis using Cons False True ps
        by (simp add: starts_with_def after_last_slash_Cons_other)
    next
      case no: False
      then have "split_js ''/'' cs = [cs]" using Cons by simp
      then show ?thesis using False no
        by (simp add: starts_with_def after_last_slash_no_slash)
    qed
  qed
qed

lemma get_loc_name_eq: "get_loc_name loc = after_last_slash loc"
  by (simp add: get_loc_name_def split_slash)

lemma get_loc_name_idem: "get_loc_name (get_loc_name loc) = get_loc_name loc"
  by (simp add: get_loc_name_eq after_last_slash_no_slash slash_free_after_last_slash)

lemma after_last_slash_suffix:
  "\<exists>pre. loc = pre @ after_last_slash loc \<and> (pre = [] \<or> last pre = CHR ''/'')"
proof -
  let ?P = "\<lambda>c. c \<noteq> CHR ''/''"
  let ?pre = "rev (dropWhile ?P (rev loc))"
  have "?pre @ rev (takeWhile ?P (rev loc)) =
          rev (takeWhile ?P (rev loc) @ dropWhile ?P (rev loc))"
    by (simp only: rev_append)
  also have "\<dots> = loc"
    by (simp only: takeWhile_dropWhile_id rev_rev_ident)
  finally have eq: "loc = ?pre @ after_last_slash loc"
    unfolding after_last_slash_def by (rule sym)
  have "?pre = [] \<or> last ?pre = CHR ''/''"
  proof (cases "dropWhile ?P (rev loc)")
    case Nil then show ?thesis by simp
  next
    case (Cons x xs)
    then have "\<not> ?P x" using hd_dropWhile[of ?P "rev loc"] by auto
    then show ?thesis using Cons by (simp add: last_rev)
  qed
  with eq show ?thesis by blast
qed

lemma normalize_test_idem: "normalize_test (normalize_test t) = normalize_test t"
  by (simp add: normalize_test_def get_loc_name_idem)

lemma normalize_block_idem: "normalize_block (normalize_block b) = normalize_block b"
  by (simp add: normalize_block_def get_loc_name_idem normalize_test_idem comp_def)

text \<open>
  C8. \<open>normalize_code_names\<close> is idempotent; an evaluation whose result is \<open>Err\<close> is
  unchanged; in an \<open>Ok\<close> result the location of every block and of every test becomes the
  text after its last \<^verbatim>\<open>/\<close>, and nothing else changes. \<open>get_loc_name\<close> returns that
  text: it has no \<^verbatim>\<open>/\<close>, the location ends with it, what precedes it is empty or ends
  with \<^verbatim>\<open>/\<close>, and a location without \<^verbatim>\<open>/\<close> is returned as it is.
\<close>

theorem normalize_idempotent:
  "normalize_code_names (normalize_code_names e) = normalize_code_names e \<and>
   (result_is_Err (e_result e) \<longrightarrow> normalize_code_names e = e) \<and>
   (\<forall>blocks. e_result e = Ok blocks \<longrightarrow>
      normalize_code_names e =
        e\<lparr>e_result := Ok (map (\<lambda>block. block\<lparr>b_loc := after_last_slash (b_loc block),
                b_tests := map (\<lambda>test. test\<lparr>t_loc := after_last_slash (t_loc test)\<rparr>)
                             (b_tests block)\<rparr>) blocks)\<rparr>) \<and>
   get_loc_name loc = after_last_slash loc \<and>
   CHR ''/'' \<notin> set (after_last_slash loc) \<and>
   (\<exists>pre. loc = pre @ after_last_slash loc \<and> (pre = [] \<or> last pre = CHR ''/'')) \<and>
   (CHR ''/'' \<notin> set loc \<longrightarrow> get_loc_name loc = loc)"
proof -
  have idem: "normalize_code_names (normalize_code_names e) = normalize_code_names e"
    by (cases "e_result e") (simp_all add: normalize_code_names_def normalize_block_idem comp_def)
  have err: "result_is_Err (e_result e) \<longrightarrow> normalize_code_names e = e"
    by (cases "e_result e") (simp_all add: normalize_code_names_def result_is_Err_def)
  have ok: "\<forall>blocks. e_result e = Ok blocks \<longrightarrow>
      normalize_code_names e =
        e\<lparr>e_result := Ok (map (\<lambda>block. block\<lparr>b_loc := after_last_slash (b_loc block),
                b_tests := map (\<lambda>test. test\<lparr>t_loc := after_last_slash (t_loc test)\<rparr>)
                             (b_tests block)\<rparr>) blocks)\<rparr>"
    by (simp add: normalize_code_names_def normalize_block_def normalize_test_def get_loc_name_eq)
  show ?thesis
    using idem err ok after_last_slash_suffix[of loc]
    by (simp add: get_loc_name_eq slash_free_after_last_slash after_last_slash_no_slash)
qed

theorem normalize_idempotent_witness:
  "normalize_code_names wheat_raw =
     eval_of ''/autograder/wheats/w4.arr''
       (Ok [\<lparr>b_name = ''D'', b_loc = ''tests.arr:8:0-19:3'', b_error = False,
             b_tests = [\<lparr>t_loc = ''tests.arr:9:2-9:30'', t_passed = True\<rparr>]\<rparr>]) \<and>
   normalize_code_names (normalize_code_names wheat_raw) = normalize_code_names wheat_raw \<and>
   result_is_Err (e_result wheat_timeout) \<and>
   normalize_code_names wheat_timeout = wheat_timeout \<and>
   get_loc_name doc_loc = ''tests.arr:8:0-19:3'' \<and>
   CHR ''/'' \<notin> set ''tests.arr:1:2'' \<and>
   get_loc_name ''tests.arr:1:2'' = ''tests.arr:1:2''"
  using normalize_idempotent[of wheat_raw doc_loc]
    normalize_idempotent[of wheat_timeout "''tests.arr:1:2''"]
  by (simp add: wheat_raw_def wheat_timeout_def eval_of_def doc_loc_def result_is_Err_def
      normalize_code_names_def normalize_block_def normalize_test_def get_loc_name_def
      starts_with_def)

section \<open>The failure detector\<close>

lemma scan_tests_eq:
  "scan_tests block acc ts =
     acc @ map (\<lambda>test. \<lparr>tb_test = test, tb_block = block\<rparr>) (filter (\<lambda>test. \<not> t_passed test) ts)"
  by (induction ts arbitrary: acc) auto

lemma scan_blocks_eq:
  "scan_blocks ts bs blocks = (ts @ failing_pairs blocks, bs @ errored_blocks blocks)"
  by (induction blocks arbitrary: ts bs)
    (auto simp: scan_tests_eq failing_pairs_def errored_blocks_def)

lemma detector_Ok:
  "e_result e = Ok blocks \<Longrightarrow>
   get_invalid_tests_and_blocks e =
     (if failing_pairs blocks = [] \<and> errored_blocks blocks = []
      then \<lparr>success = Pass, failures = None\<rparr>
      else \<lparr>success = Fail,
            failures = Some \<lparr>f_tests = failing_pairs blocks, f_blocks = errored_blocks blocks\<rparr>\<rparr>)"
  by (simp add: get_invalid_tests_and_blocks_def scan_blocks_eq)

lemma detector_Err:
  "e_result e = Err k \<Longrightarrow> get_invalid_tests_and_blocks e = \<lparr>success = ErrF, failures = None\<rparr>"
  by (simp add: get_invalid_tests_and_blocks_def)

lemma failing_pairs_set:
  "tb \<in> set (failing_pairs blocks) \<Longrightarrow>
     \<not> t_passed (tb_test tb) \<and> tb_test tb \<in> set (b_tests (tb_block tb)) \<and>
     tb_block tb \<in> set blocks"
  by (auto simp: failing_pairs_def)

text \<open>
  C7. The report of \<open>get_invalid_tests_and_blocks\<close>: a \<open>Fail\<close> report comes from an \<open>Ok\<close>
  result and carries exactly the errored blocks and the failing tests of that result, so
  every block in it has \<open>error = true\<close>, every test in it has \<open>passed = false\<close> and is
  paired with the block that owns it, and at least one of the two lists is not empty; a
  \<open>Pass\<close> report carries no failures and is returned exactly when both lists are empty;
  an \<open>Err\<close> report is returned exactly for an \<open>Err\<close> result.
\<close>

theorem detector_invariants:
  "(let report = get_invalid_tests_and_blocks e in
     (success report = Fail \<longrightarrow>
        (\<exists>blocks invalids. e_result e = Ok blocks \<and> failures report = Some invalids \<and>
           f_tests invalids = failing_pairs blocks \<and> f_blocks invalids = errored_blocks blocks \<and>
           (\<forall>block \<in> set (f_blocks invalids). b_error block \<and> block \<in> set blocks) \<and>
           (\<forall>tb \<in> set (f_tests invalids).
              \<not> t_passed (tb_test tb) \<and> tb_test tb \<in> set (b_tests (tb_block tb)) \<and>
              tb_block tb \<in> set blocks) \<and>
           (f_tests invalids \<noteq> [] \<or> f_blocks invalids \<noteq> []))) \<and>
     (success report = Pass \<longrightarrow> failures report = None) \<and>
     (success report = Pass \<longleftrightarrow>
        (\<exists>blocks. e_result e = Ok blocks \<and> failing_pairs blocks = [] \<and>
           errored_blocks blocks = [])) \<and>
     (success report = ErrF \<longleftrightarrow> result_is_Err (e_result e)))"
proof (cases "e_result e")
  case (Ok blocks)
  show ?thesis
    using failing_pairs_set[of _ blocks]
    by (auto simp: detector_Ok[OF Ok] Ok Let_def result_is_Err_def errored_blocks_def)
next
  case (Err k)
  show ?thesis
    by (simp add: detector_Err[OF Err] Err Let_def result_is_Err_def)
qed

theorem detector_invariants_witness:
  "success (get_invalid_tests_and_blocks wheat_test_and_block) = Fail \<and>
   failures (get_invalid_tests_and_blocks wheat_test_and_block) =
     Some \<lparr>f_tests = [\<lparr>tb_test = failing_test, tb_block = block_A\<rparr>], f_blocks = [block_B]\<rparr> \<and>
   b_error block_B \<and> \<not> t_passed failing_test \<and> failing_test \<in> set (b_tests block_A) \<and>
   success (get_invalid_tests_and_blocks wheat_pass) = Pass \<and>
   failures (get_invalid_tests_and_blocks wheat_pass) = None"
  using detector_invariants[of wheat_test_and_block] detector_invariants[of wheat_pass]
  by (simp add: get_invalid_tests_and_blocks_def Let_def wheat_test_and_block_def
      wheat_pass_def eval_of_def block_A_def block_B_def block_C_def failing_test_def
      passing_test_def failing_pairs_def errored_blocks_def)

section \<open>Reports that fail without a reason\<close>

lemma detector_Fail_nonempty:
  "success (get_invalid_tests_and_blocks e) = Fail \<Longrightarrow>
     \<exists>invalids. failures (get_invalid_tests_and_blocks e) = Some invalids \<and>
       (f_tests invalids \<noteq> [] \<or> f_blocks invalids \<noteq> [])"
  by (cases "e_result e") (auto simp: detector_Ok detector_Err split: if_splits)

lemma generate_wheat_messages_Err:
  "e_result w = Err k \<Longrightarrow>
     generate_wheat_messages w =
       Inr \<lparr>valid = False, messages = Some [''Wheat errored; '' @ show_ErrKind k]\<rparr>"
  by (simp add: generate_wheat_messages_def wheat_messages_of_def detector_Err show_result_Err_def)

lemma generate_wheat_messages_Ok:
  "e_result w = Ok blocks \<Longrightarrow>
     \<exists>m. generate_wheat_messages w = Inr \<lparr>valid = True, messages = m\<rparr>"
  by (auto simp: generate_wheat_messages_def wheat_messages_of_def detector_Ok Let_def)

lemma generate_wheat_messages_total: "\<exists>rep. generate_wheat_messages w = Inr rep"
  by (cases "e_result w") (auto dest: generate_wheat_messages_Err generate_wheat_messages_Ok)

lemma generate_examplar_chaff_report_total:
  "\<exists>rep. generate_examplar_chaff_report c n = Inr rep"
  by (cases "e_result c")
    (auto simp: generate_examplar_chaff_report_def examplar_chaff_of_def detector_Ok detector_Err
      Let_def)

lemma foldl_block_line:
  "foldl detailed_wheat_block_line out bs =
     (if bs = [] then out
      else ''Wheat caused error in block '' @ dq @ b_name (last bs) @ dq @ ''\<newline>'')"
  by (induction bs arbitrary: out) (auto simp: detailed_wheat_block_line_def)

lemma foldl_test_line_nonempty:
  "out \<noteq> [] \<or> ts \<noteq> [] \<Longrightarrow> foldl detailed_wheat_test_line out ts \<noteq> []"
  by (induction ts arbitrary: out) (auto simp: detailed_wheat_test_line_def)

lemma generate_detailed_wheat_report_total:
  "\<exists>rep. generate_detailed_wheat_report w = Inr rep"
proof (cases "e_result w")
  case (Ok blocks)
  show ?thesis
    using foldl_test_line_nonempty[of "[]" "failing_pairs blocks"]
    by (auto simp: generate_detailed_wheat_report_def detailed_wheat_of_def detector_Ok[OF Ok]
        Let_def foldl_block_line)
next
  case (Err k)
  then show ?thesis
    by (simp add: generate_detailed_wheat_report_def detailed_wheat_of_def detector_Err)
qed

text \<open>
  C9. On a report tagged \<open>Fail\<close> whose two failure lists are empty, the body of
  \<open>generate_wheat_messages\<close> and the body of \<open>generate_examplar_chaff_report\<close> throw a
  message that ends in \<^verbatim>\<open>but no reason given.\<close>, and so does the body of
  \<open>generate_detailed_wheat_report\<close>; none of them returns a report. On the detector's own
  output the branch cannot be reached: a \<open>Fail\<close> report of \<open>get_invalid_tests_and_blocks\<close>
  has a failing test or an errored block, and the three functions return a report for
  every evaluation.
\<close>

theorem no_reason_given:
  "(success r = Fail \<and> failures r = Some \<lparr>f_tests = [], f_blocks = []\<rparr> \<longrightarrow>
      wheat_messages_of r w =
        Inl (Thrown ''Contact instructor; Wheat failed, but no reason given.'') \<and>
      examplar_chaff_of r c n =
        (Inl (Thrown ''Contact instructor; Chaff failed, but no reason given.'')
           :: exn + 'n GradescopeTestReport) \<and>
      detailed_wheat_of r w =
        (Inl (Thrown ''Wheat failed but no reason given.'')
           :: exn + ('n::{zero,one}) GradescopeTestReport)) \<and>
   (success (get_invalid_tests_and_blocks e) = Fail \<longrightarrow>
      (\<exists>invalids. failures (get_invalid_tests_and_blocks e) = Some invalids \<and>
         (f_tests invalids \<noteq> [] \<or> f_blocks invalids \<noteq> []))) \<and>
   (\<exists>rep. generate_wheat_messages e = Inr rep) \<and>
   (\<exists>rep :: 'n GradescopeTestReport. generate_examplar_chaff_report e n = Inr rep) \<and>
   (\<exists>rep :: 'n GradescopeTestReport. generate_detailed_wheat_report e = Inr rep)"
  using detector_Fail_nonempty[of e] generate_wheat_messages_total[of e]
    generate_examplar_chaff_report_total[of e n] generate_detailed_wheat_report_total[of e]
  by (simp add: wheat_messages_of_def examplar_chaff_of_def detailed_wheat_of_def)

theorem no_reason_given_witness:
  "success \<lparr>success = Fail, failures = Some \<lparr>f_tests = [], f_blocks = []\<rparr>\<rparr> = Fail \<and>
   wheat_messages_of \<lparr>success = Fail, failures = Some \<lparr>f_tests = [], f_blocks = []\<rparr>\<rparr> wheat_pass =
     Inl (Thrown ''Contact instructor; Wheat failed, but no reason given.'') \<and>
   examplar_chaff_of \<lparr>success = Fail, failures = Some \<lparr>f_tests = [], f_blocks = []\<rparr>\<rparr> wheat_pass 0 =
     (Inl (Thrown ''Contact instructor; Chaff failed, but no reason given.'')
        :: exn + int GradescopeTestReport) \<and>
   detailed_wheat_of \<lparr>success = Fail, failures = Some \<lparr>f_tests = [], f_blocks = []\<rparr>\<rparr> wheat_pass =
     (Inl (Thrown ''Wheat failed but no reason given.'') :: exn + int GradescopeTestReport) \<and>
   success (get_invalid_tests_and_blocks wheat_block_error) = Fail \<and>
   failures (get_invalid_tests_and_blocks wheat_block_error) =
     Some \<lparr>f_tests = [], f_blocks = [block_B]\<rparr>"
  using no_reason_given[where 'n = int,
      of "\<lparr>success = Fail, failures = Some \<lparr>f_tests = [], f_blocks = []\<rparr>\<rparr>"
        wheat_pass wheat_pass 0 wheat_block_error]
  by (simp add: get_invalid_tests_and_blocks_def wheat_block_error_def eval_of_def block_B_def)

section \<open>Removing duplicate messages\<close>

lemma indexOf_from_less:
  "v \<in> set xs \<Longrightarrow> indexOf_from i xs v < int (i + length xs)"
proof (induction xs arbitrary: i)
  case Nil
  then show ?case by simp
next
  case (Cons a xs)
  show ?case
  proof (cases "a = v")
    case True
    then show ?thesis by simp
  next
    case False
    with Cons.prems have "v \<in> set xs" by simp
    from Cons.IH[OF this, of "Suc i"] show ?thesis using False by simp
  qed
qed

lemma indexOf_from_append_seen:
  "v \<in> set seen \<Longrightarrow> indexOf_from i (seen @ xs) v = indexOf_from i seen v"
  by (induction seen arbitrary: i) auto

lemma indexOf_from_append_new:
  "v \<notin> set seen \<Longrightarrow> indexOf_from i (seen @ xs) v = indexOf_from (i + length seen) xs v"
  by (induction seen arbitrary: i) auto

lemma keep_new_cong: "set s1 = set s2 \<Longrightarrow> keep_new s1 xs = keep_new s2 xs"
proof (induction xs arbitrary: s1 s2)
  case Nil
  show ?case by simp
next
  case (Cons x xs)
  have "set (s1 @ [x]) = set (s2 @ [x])" using Cons.prems by simp
  then have new: "keep_new (s1 @ [x]) xs = keep_new (s2 @ [x]) xs" by (rule Cons.IH)
  have old: "keep_new s1 xs = keep_new s2 xs" using Cons.prems by (rule Cons.IH)
  show ?case using Cons.prems new old by simp
qed

lemma filter_indexed_keep_new:
  "filter_indexed (\<lambda>v i. indexOf_from 0 (seen @ xs) v = int i) (length seen) xs = keep_new seen xs"
proof (induction xs arbitrary: seen)
  case Nil
  show ?case by simp
next
  case (Cons x xs)
  have IH: "filter_indexed (\<lambda>v i. indexOf_from 0 (seen @ x # xs) v = int i) (Suc (length seen)) xs
            = keep_new (seen @ [x]) xs"
    using Cons[of "seen @ [x]"] by simp
  show ?case
  proof (cases "x \<in> set seen")
    case True
    have "indexOf_from 0 (seen @ x # xs) x < int (length seen)"
      using True indexOf_from_less[of x seen 0] by (simp add: indexOf_from_append_seen)
    moreover have "keep_new (seen @ [x]) xs = keep_new seen xs"
      using True by (intro keep_new_cong) auto
    ultimately show ?thesis
      using True IH by simp
  next
    case False
    then show ?thesis
      using IH indexOf_from_append_new[of x seen 0 "x # xs"] by simp
  qed
qed

lemma remove_duplicates_eq: "remove_duplicates msgs = first_occurrences msgs"
  using filter_indexed_keep_new[of "[]" msgs]
  by (simp add: remove_duplicates_def first_occurrences_def indexOf_def)

lemma keep_new_set: "set (keep_new seen xs) = set xs - set seen"
  by (induction xs arbitrary: seen) auto

lemma keep_new_distinct: "distinct (keep_new seen xs)"
  by (induction xs arbitrary: seen) (auto simp: keep_new_set)

lemma remove_duplicates_distinct:
  "distinct (remove_duplicates msgs) \<and> set (remove_duplicates msgs) = set msgs"
  by (simp add: remove_duplicates_eq first_occurrences_def keep_new_set keep_new_distinct)

section \<open>The aggregate wheat verdict\<close>

lemma collect_wheat_messages_eq:
  "collect_wheat_messages \<lparr>valid = v, messages = Some ms\<rparr> ws =
     Inr \<lparr>valid = (v \<and> \<not> list_ex (\<lambda>w. result_is_Err (e_result w)) ws),
          messages = Some (ms @ err_messages ws)\<rparr>"
proof (induction ws arbitrary: v ms)
  case Nil
  show ?case by (simp add: err_messages_def)
next
  case (Cons w ws)
  show ?case
  proof (cases "e_result w")
    case (Ok blocks)
    then obtain m where "generate_wheat_messages w = Inr \<lparr>valid = True, messages = m\<rparr>"
      using generate_wheat_messages_Ok by blast
    then show ?thesis using Ok Cons[of v ms]
      by (simp add: err_messages_def result_is_Err_def)
  next
    case (Err k)
    then show ?thesis using generate_wheat_messages_Err[OF Err] Cons[of False]
      by (simp add: err_messages_def result_is_Err_def)
  qed
qed

lemma generate_examplar_wheat_report_eq:
  "generate_examplar_wheat_report ws =
     Inr (if \<not> list_ex (\<lambda>w. result_is_Err (e_result w)) ws
          then examplar_report ''VALID''
                 ''These tests are valid and consistent with the assignment handout.'' Wheat
          else examplar_report ''INVALID''
                 (''Your test suite failed at least one of our wheats.\<newline>'' @
                  join_js ''\<newline>'' (first_occurrences (err_messages ws))) Wheat)"
  by (simp add: generate_examplar_wheat_report_def collect_wheat_messages_eq remove_duplicates_eq)

text \<open>
  C1. The aggregate verdict for a single wheat whose report is \<open>Fail\<close> (one errored block):
  \<open>generate_wheat_messages\<close> builds the wheat's message but returns \<^verbatim>\<open>valid: true\<close>, and
  the verdict of \<open>generate_examplar_wheat_report\<close> is \<open>VALID\<close> with the positive output, not
  \<open>INVALID\<close> with the message. In general the verdict is \<open>VALID\<close> exactly when no wheat has
  an \<open>Err\<close> result (lemma \<open>generate_examplar_wheat_report_eq\<close>).
\<close>

theorem examplar_wheat_fail_is_VALID:
  "success (get_invalid_tests_and_blocks wheat_block_error) = Fail \<and>
   generate_wheat_messages wheat_block_error =
     Inr \<lparr>valid = True,
          messages = Some [''Block '' @ dq @ ''B'' @ dq @ '' at lines 7:0-9:3 raised an error.'']\<rparr> \<and>
   generate_examplar_wheat_report [wheat_block_error] =
     Inr (examplar_report ''VALID''
            ''These tests are valid and consistent with the assignment handout.'' Wheat)"
  by (simp add: generate_examplar_wheat_report_def generate_wheat_messages_def
      wheat_messages_of_def get_invalid_tests_and_blocks_def wheat_block_error_def eval_of_def
      block_B_def wheat_block_message_def get_line_number_def at_index_def starts_with_def
      show_opt_def)

text \<open>
  C6. The explanation of an \<open>INVALID\<close> verdict for a timed-out wheat, a wheat with an
  errored block and a second timed-out wheat: it holds \<^verbatim>\<open>Wheat errored; Timeout\<close> once, and
  the message of the errored block not at all. The filter that removes duplicates keeps
  the first occurrences in order (lemmas \<open>remove_duplicates_eq\<close> and
  \<open>remove_duplicates_distinct\<close>); the messages of a wheat whose report is \<open>Fail\<close> never
  reach it.
\<close>

theorem examplar_wheat_drops_fail_messages:
  "generate_wheat_messages wheat_block_error =
     Inr \<lparr>valid = True,
          messages = Some [''Block '' @ dq @ ''B'' @ dq @ '' at lines 7:0-9:3 raised an error.'']\<rparr> \<and>
   generate_examplar_wheat_report [wheat_timeout, wheat_block_error, wheat_timeout] =
     Inr (examplar_report ''INVALID''
            (''Your test suite failed at least one of our wheats.\<newline>'' @
             ''Wheat errored; Timeout'') Wheat)"
  by (simp add: generate_examplar_wheat_report_def generate_wheat_messages_def
      wheat_messages_of_def get_invalid_tests_and_blocks_def wheat_block_error_def eval_of_def
      block_B_def wheat_block_message_def get_line_number_def at_index_def starts_with_def
      show_opt_def wheat_timeout_def show_result_Err_def remove_duplicates_def indexOf_def)

section \<open>The detailed wheat report\<close>

lemma generate_detailed_wheat_report_Ok:
  "e_result w = Ok blocks \<Longrightarrow>
   generate_detailed_wheat_report w =
     Inr (if failing_pairs blocks = [] \<and> errored_blocks blocks = []
          then detailed_report (''Wheat: '' @ get_code_file_name w) ''Passed wheat!'' 1
                 AfterPublished Wheat
          else detailed_report (''Wheat: '' @ get_code_file_name w)
                 (if errored_blocks blocks = []
                  then foldl detailed_wheat_test_line [] (failing_pairs blocks)
                  else ''Wheat caused error in block '' @ dq @
                       b_name (last (errored_blocks blocks)) @ dq @ ''\<newline>'')
                 0 AfterPublished Wheat)"
  using foldl_test_line_nonempty[of "[]" "failing_pairs blocks"]
  by (auto simp: generate_detailed_wheat_report_def detailed_wheat_of_def detector_Ok Let_def
      foldl_block_line)

lemma generate_detailed_wheat_report_score:
  "\<exists>rep. generate_detailed_wheat_report w = Inr rep \<and>
     r_score rep = Some (if success (get_invalid_tests_and_blocks w) = Pass then 1 else 0) \<and>
     r_max_score rep = Some 1"
proof (cases "e_result w")
  case (Ok blocks)
  show ?thesis
    by (simp add: generate_detailed_wheat_report_Ok[OF Ok] detector_Ok[OF Ok] detailed_report_def)
next
  case (Err k)
  then show ?thesis
    by (simp add: generate_detailed_wheat_report_def detailed_wheat_of_def detector_Err
        detailed_report_def)
qed

text \<open>
  C4. The detailed report of a wheat scores 1 of 1 for a \<open>Pass\<close> report and 0 of 1
  otherwise (lemma \<open>generate_detailed_wheat_report_score\<close>). Its output does not name the
  first failing test's block when a block errored: the loop over the errored blocks
  assigns \<^verbatim>\<open>output\<close> where the loop over the failing tests appends to it, so
  with an errored block the output is the line of the last errored block alone (lemma
  \<open>generate_detailed_wheat_report_Ok\<close>). For a wheat with a failing test in block \<open>A\<close> and
  an error in block \<open>B\<close> the report scores 0 of 1 and its output names block \<open>B\<close> only.
\<close>

theorem detailed_wheat_clobbers_tests:
  "success (get_invalid_tests_and_blocks wheat_test_and_block) = Fail \<and>
   failures (get_invalid_tests_and_blocks wheat_test_and_block) =
     Some \<lparr>f_tests = [\<lparr>tb_test = failing_test, tb_block = block_A\<rparr>], f_blocks = [block_B]\<rparr> \<and>
   generate_detailed_wheat_report wheat_test_and_block =
     Inr (detailed_report ''Wheat: w2.arr''
            (''Wheat caused error in block '' @ dq @ ''B'' @ dq @ ''\<newline>'') 0
            AfterPublished Wheat)"
  by (simp add: generate_detailed_wheat_report_def detailed_wheat_of_def
      get_invalid_tests_and_blocks_def wheat_test_and_block_def eval_of_def block_A_def
      block_B_def failing_test_def passing_test_def detailed_wheat_test_line_def
      detailed_wheat_block_line_def get_code_file_name_def basename_def)

section \<open>The known-bad locations and wheats that errored\<close>

lemma collect_invalids_Err:
  "list_ex (\<lambda>w. result_is_Err (e_result w)) ws \<Longrightarrow> collect_invalids ts bs ws = Inl TypeError"
proof (induction ws arbitrary: ts bs)
  case Nil
  then show ?case by simp
next
  case (Cons w ws)
  show ?case
  proof (cases "e_result w")
    case (Ok blocks)
    then have "list_ex (\<lambda>w. result_is_Err (e_result w)) ws"
      using Cons.prems by (simp add: result_is_Err_def)
    then have "\<And>ts bs. collect_invalids ts bs ws = Inl TypeError" by (rule Cons.IH)
    then show ?thesis by (simp add: detector_Ok[OF Ok] Let_def)
  next
    case (Err k)
    then show ?thesis by (simp add: detector_Err[OF Err])
  qed
qed

lemma collect_invalids_Ok:
  "\<not> list_ex (\<lambda>w. result_is_Err (e_result w)) ws \<Longrightarrow>
   collect_invalids ts bs ws =
     Inr (ts @ concat (map (\<lambda>w. report_tests (get_invalid_tests_and_blocks w)) ws),
          bs @ concat (map (\<lambda>w. report_blocks (get_invalid_tests_and_blocks w)) ws))"
proof (induction ws arbitrary: ts bs)
  case Nil
  then show ?case by simp
next
  case (Cons w ws)
  then obtain blocks where Ok: "e_result w = Ok blocks"
    by (cases "e_result w") (auto simp: result_is_Err_def)
  have rest: "\<not> list_ex (\<lambda>w. result_is_Err (e_result w)) ws" using Cons.prems by simp
  show ?case
    by (simp add: detector_Ok[OF Ok] Let_def Cons.IH[OF rest] report_tests_def report_blocks_def)
qed

lemma report_locs_eq:
  "report_locs r = t_loc ` set (report_tests r) \<union> b_loc ` set (report_blocks r)"
  by (cases "failures r") (auto simp: report_locs_def report_tests_def report_blocks_def)

lemma known_bad_list_set: "set (known_bad_list ws) = known_bad_locs ws"
  by (auto simp: known_bad_list_def known_bad_locs_def report_locs_eq)

lemma generate_detailed_chaff_report_eq:
  "generate_detailed_chaff_report ws =
     (if list_ex (\<lambda>w. result_is_Err (e_result w)) ws then Inl TypeError
      else Inr (detailed_chaff_closure (known_bad_list ws)))"
  by (simp add: generate_detailed_chaff_report_def collect_invalids_Err collect_invalids_Ok
      all_invalid_locs_of_def known_bad_list_def)

lemma map_exn_total: "(\<And>x. \<exists>y. f x = Inr y) \<Longrightarrow> \<exists>ys. map_exn f xs = Inr ys"
proof (induction xs)
  case Nil
  show ?case by simp
next
  case (Cons x xs)
  obtain y where "f x = Inr y" using Cons.prems by blast
  moreover obtain ys where "map_exn f xs = Inr ys" using Cons by blast
  ultimately show ?case by simp
qed

lemma detailed_and_score_reports_Err:
  assumes "list_ex (\<lambda>w. result_is_Err (e_result w)) ws"
  shows "detailed_and_score_reports (add :: 'n \<Rightarrow> ('n::{zero,one}) \<Rightarrow> 'n) same pv ts ws cs =
    Inl TypeError"
proof -
  obtain reps :: "'n GradescopeTestReport list"
    where "map_exn generate_detailed_wheat_report ws = Inr reps"
    using map_exn_total[of generate_detailed_wheat_report ws]
      generate_detailed_wheat_report_total by blast
  then show ?thesis
    using assms by (simp add: detailed_and_score_reports_def generate_detailed_chaff_report_eq)
qed

lemma examplar_reports_of_Err:
  assumes "list_ex (\<lambda>w. result_is_Err (e_result w)) ws"
  shows "\<exists>reps. examplar_reports_of cfg ws cs = Inr reps"
  using assms
  by (simp add: examplar_reports_of_def generate_examplar_wheat_report_eq examplar_report_def
      split: option.splits)

lemma normalize_keeps_Err:
  "result_is_Err (e_result (normalize_code_names w)) = result_is_Err (e_result w)"
  by (cases "e_result w") (simp_all add: normalize_code_names_def result_is_Err_def)

text \<open>
  C5. When some wheat has an \<open>Err\<close> result, its failure report is tagged \<open>Err\<close> and has no
  \<^verbatim>\<open>failures\<close> field; \<open>generate_detailed_chaff_report\<close> reads that field for every report
  that is not \<open>Pass\<close> and throws a \<^verbatim>\<open>TypeError\<close>. The block of \<^verbatim>\<open>main\<close> that builds the
  detailed and score reports therefore throws, with any list of chaffs and with none, and
  so does the report generation of \<^verbatim>\<open>main\<close> as a whole.
\<close>

theorem err_wheat_breaks_detailed_reports:
  assumes "list_ex (\<lambda>w. result_is_Err (e_result w)) wheat_results"
  shows "(\<forall>w \<in> set wheat_results. result_is_Err (e_result w) \<longrightarrow>
            success (get_invalid_tests_and_blocks w) = ErrF \<and>
            failures (get_invalid_tests_and_blocks w) = None) \<and>
         (generate_detailed_chaff_report wheat_results
            :: exn + (Evaluation \<Rightarrow> ('n::{zero,one}) GradescopeTestReport)) = Inl TypeError \<and>
         detailed_and_score_reports (add :: 'n \<Rightarrow> 'n \<Rightarrow> 'n) same pv test_results wheat_results
           chaff_results = Inl TypeError \<and>
         detailed_and_score_reports add same pv test_results wheat_results [] = Inl TypeError \<and>
         all_reports_of add same cfg pv test_results wheat_results chaff_results = Inl TypeError"
proof -
  have cause: "\<forall>w \<in> set wheat_results. result_is_Err (e_result w) \<longrightarrow>
            success (get_invalid_tests_and_blocks w) = ErrF \<and>
            failures (get_invalid_tests_and_blocks w) = None"
    by (auto simp: result_is_Err_def detector_Err split: Result.splits)
  have norm: "list_ex (\<lambda>w. result_is_Err (e_result w)) (map normalize_code_names wheat_results)"
    using assms by (simp add: list_ex_iff normalize_keeps_Err)
  obtain reps :: "'n GradescopeTestReport list"
    where reps: "examplar_reports_of cfg (map normalize_code_names wheat_results)
      (map normalize_code_names chaff_results) = Inr reps"
    using examplar_reports_of_Err[OF norm] by blast
  have all: "all_reports_of add same cfg pv test_results wheat_results chaff_results =
      Inl TypeError"
    by (simp add: all_reports_of_def Let_def reps detailed_and_score_reports_Err[OF norm])
  show ?thesis
    using cause all assms
    by (simp add: generate_detailed_chaff_report_eq detailed_and_score_reports_Err)
qed

theorem err_wheat_breaks_detailed_reports_witness:
  "list_ex (\<lambda>w. result_is_Err (e_result w)) [wheat_pass, wheat_timeout] \<and>
   success (get_invalid_tests_and_blocks wheat_timeout) = ErrF \<and>
   failures (get_invalid_tests_and_blocks wheat_timeout) = None \<and>
   (generate_detailed_chaff_report [wheat_pass, wheat_timeout]
      :: exn + (Evaluation \<Rightarrow> int GradescopeTestReport)) = Inl TypeError \<and>
   detailed_and_score_reports (+) (=) \<lparr>functionality = Map.empty, testing = Map.empty\<rparr> []
     [wheat_pass, wheat_timeout] [] =
     (Inl TypeError :: exn + (int GradescopeTestReport list \<times> int GradescopeTestReport list)) \<and>
   all_reports_of (+) (=) None \<lparr>functionality = Map.empty, testing = Map.empty\<rparr> []
     [wheat_pass, wheat_timeout] [] = (Inl TypeError :: exn + int GradescopeTestReport list)"
proof -
  have hyp: "list_ex (\<lambda>w. result_is_Err (e_result w)) [wheat_pass, wheat_timeout]"
    by (simp add: wheat_timeout_def eval_of_def result_is_Err_def)
  show ?thesis
    using hyp err_wheat_breaks_detailed_reports[OF hyp,
        where 'n = int and add = "(+)" and same = "(=)"
          and pv = "\<lparr>functionality = Map.empty, testing = Map.empty\<rparr>"
          and test_results = "[]" and chaff_results = "[]" and cfg = None]
    by (simp add: wheat_timeout_def eval_of_def result_is_Err_def)
qed

section \<open>The detailed chaff report\<close>

lemma chaff_scan_tests_None:
  "\<not> list_ex (unmasked_failing_test (set locs)) ts \<Longrightarrow> chaff_scan_tests locs block ts = None"
  by (induction ts) (auto simp: unmasked_failing_test_def)

lemma chaff_scan_tests_Some:
  "list_ex (unmasked_failing_test (set locs)) ts \<Longrightarrow>
     chaff_scan_tests locs block ts =
       Some \<lparr>so_output = ''Chaff caught; test failed in block '' @ dq @ b_name block @ dq @ ''!'',
             so_score = 1\<rparr>"
  by (induction ts) (auto simp: unmasked_failing_test_def)

lemma chaff_scan_blocks_step:
  "chaff_scan_blocks locs (block # rest) =
     (if unmasked_error (set locs) block
      then \<lparr>so_output = ''Chaff caught; error in block '' @ dq @ b_name block @ dq @ ''!'',
            so_score = 1\<rparr>
      else if list_ex (unmasked_failing_test (set locs)) (b_tests block)
      then \<lparr>so_output = ''Chaff caught; test failed in block '' @ dq @ b_name block @ dq @ ''!'',
            so_score = 1\<rparr>
      else chaff_scan_blocks locs rest)"
  by (simp add: unmasked_error_def chaff_scan_tests_None chaff_scan_tests_Some)

lemma chaff_scan_blocks_none:
  "\<not> list_ex (has_unmasked_failure (set locs)) blocks \<Longrightarrow>
     chaff_scan_blocks locs blocks = \<lparr>so_output = ''Chaff not caught.'', so_score = 0\<rparr>"
proof (induction blocks)
  case Nil
  show ?case by simp
next
  case (Cons block rest)
  then show ?case
    by (simp only: chaff_scan_blocks_step) (simp add: has_unmasked_failure_def)
qed

lemma chaff_scan_blocks_first:
  "\<not> list_ex (has_unmasked_failure (set locs)) pre \<Longrightarrow> has_unmasked_failure (set locs) block \<Longrightarrow>
     chaff_scan_blocks locs (pre @ block # post) =
       \<lparr>so_output =
          (if unmasked_error (set locs) block
           then ''Chaff caught; error in block '' @ dq @ b_name block @ dq @ ''!''
           else ''Chaff caught; test failed in block '' @ dq @ b_name block @ dq @ ''!''),
        so_score = 1\<rparr>"
proof (induction pre)
  case Nil
  then show ?case
    by (simp only: append_Nil chaff_scan_blocks_step) (auto simp: has_unmasked_failure_def)
next
  case (Cons b pre)
  then show ?case
    by (simp only: append_Cons chaff_scan_blocks_step) (auto simp: has_unmasked_failure_def)
qed

lemma chaff_scan_blocks_score:
  "so_score (chaff_scan_blocks locs blocks) =
     (if list_ex (has_unmasked_failure (set locs)) blocks then 1 else 0)"
proof (induction blocks)
  case Nil
  show ?case by simp
next
  case (Cons block rest)
  then show ?case
    by (simp only: chaff_scan_blocks_step) (simp add: has_unmasked_failure_def)
qed

lemma chaff_closure_score:
  "set locs = known_bad \<Longrightarrow>
   r_score (detailed_chaff_closure locs chaff) =
     Some (case e_result chaff of
             Err k \<Rightarrow> 1
           | Ok blocks \<Rightarrow> if list_ex (has_unmasked_failure known_bad) blocks then 1 else 0) \<and>
   r_max_score (detailed_chaff_closure locs chaff) = Some 1"
  by (cases "e_result chaff")
    (auto simp: detailed_chaff_closure_def get_score_and_output_def detailed_report_def
      chaff_scan_blocks_score)

text \<open>
  The scoring rule of the closure, whenever \<open>generate_detailed_chaff_report\<close> returns it:
  a chaff with an \<open>Err\<close> result scores 1, and a chaff with an \<open>Ok\<close> result scores 1 if some
  block of it has an unmasked failure and 0 otherwise, always out of 1. With no wheats
  the known-bad set is empty and the closure is returned.
\<close>

lemma chaff_score_of_reporter:
  assumes "generate_detailed_chaff_report wheat_results = Inr reporter"
  shows "r_score (reporter chaff) =
           Some (case e_result chaff of
                   Err k \<Rightarrow> 1
                 | Ok blocks \<Rightarrow>
                     if list_ex (has_unmasked_failure (known_bad_locs wheat_results)) blocks
                     then 1 else 0) \<and>
         r_max_score (reporter chaff) = Some 1"
proof -
  have "reporter = detailed_chaff_closure (known_bad_list wheat_results)"
    using assms by (simp add: generate_detailed_chaff_report_eq split: if_splits)
  then show ?thesis
    using chaff_closure_score[OF known_bad_list_set] by simp
qed

lemma chaff_reporter_without_wheats:
  "known_bad_locs [] = {} \<and>
   generate_detailed_chaff_report [] = Inr (detailed_chaff_closure [])"
  by (simp add: known_bad_locs_def generate_detailed_chaff_report_eq known_bad_list_def)

text \<open>
  C2. The closure that scores the chaffs is returned only when no wheat has an \<open>Err\<close>
  result (lemma \<open>generate_detailed_chaff_report_eq\<close>). With one timed-out wheat,
  \<open>generate_detailed_chaff_report\<close> throws a \<^verbatim>\<open>TypeError\<close> before any chaff is looked at,
  and so does the report generation of \<^verbatim>\<open>main\<close>: neither the chaff with an \<open>Err\<close> result
  nor the chaff with an unmasked failing test gets the score 1, or any score.
\<close>

theorem chaff_unscored_with_err_wheat:
  "result_is_Err (e_result wheat_timeout) \<and>
   e_result chaff_runtime = Err Runtime \<and>
   e_result chaff_test_then_error = Ok [block_A, block_B] \<and>
   has_unmasked_failure (known_bad_locs [wheat_timeout]) block_A \<and>
   (generate_detailed_chaff_report [wheat_timeout]
      :: exn + (Evaluation \<Rightarrow> int GradescopeTestReport)) = Inl TypeError \<and>
   detailed_and_score_reports (+) (=) \<lparr>functionality = Map.empty, testing = Map.empty\<rparr> []
     [wheat_timeout] [chaff_runtime, chaff_test_then_error] =
     (Inl TypeError :: exn + (int GradescopeTestReport list \<times> int GradescopeTestReport list)) \<and>
   all_reports_of (+) (=) None \<lparr>functionality = Map.empty, testing = Map.empty\<rparr> []
     [wheat_timeout] [chaff_runtime, chaff_test_then_error] =
     (Inl TypeError :: exn + int GradescopeTestReport list)"
proof -
  have err: "list_ex (\<lambda>w. result_is_Err (e_result w)) [wheat_timeout]"
    and norm: "list_ex (\<lambda>w. result_is_Err (e_result w)) (map normalize_code_names [wheat_timeout])"
    by (simp_all add: wheat_timeout_def eval_of_def result_is_Err_def normalize_code_names_def)
  have unmasked: "has_unmasked_failure (known_bad_locs [wheat_timeout]) block_A"
    by (simp add: has_unmasked_failure_def unmasked_failing_test_def known_bad_locs_def
        report_locs_def get_invalid_tests_and_blocks_def wheat_timeout_def eval_of_def
        block_A_def failing_test_def)
  have inputs: "result_is_Err (e_result wheat_timeout)" "e_result chaff_runtime = Err Runtime"
    "e_result chaff_test_then_error = Ok [block_A, block_B]"
    by (simp_all add: wheat_timeout_def chaff_runtime_def chaff_test_then_error_def eval_of_def
        result_is_Err_def)
  have reporter: "(generate_detailed_chaff_report [wheat_timeout]
      :: exn + (Evaluation \<Rightarrow> int GradescopeTestReport)) = Inl TypeError"
    using err by (simp add: generate_detailed_chaff_report_eq)
  have block: "detailed_and_score_reports (+) (=)
      \<lparr>functionality = Map.empty, testing = Map.empty\<rparr> []
      [wheat_timeout] [chaff_runtime, chaff_test_then_error] =
      (Inl TypeError :: exn + (int GradescopeTestReport list \<times> int GradescopeTestReport list))"
    by (rule detailed_and_score_reports_Err[OF err])
  have main: "all_reports_of (+) (=) None \<lparr>functionality = Map.empty, testing = Map.empty\<rparr> []
      [wheat_timeout] [chaff_runtime, chaff_test_then_error] =
      (Inl TypeError :: exn + int GradescopeTestReport list)"
    by (simp only: all_reports_of_def Let_def examplar_reports_of_def option.case sum.case
        detailed_and_score_reports_Err[OF norm])
  from inputs unmasked reporter block main show ?thesis by blast
qed

text \<open>
  C3, the priority of errored blocks over failing tests across blocks, does not hold. With
  no wheats, the chaff whose first block \<open>A\<close> has a failing test and whose second block
  \<open>B\<close> errored is reported as caught by the failing test in \<open>A\<close>, although \<open>B\<close> is the
  first block with an unmasked error.
\<close>

theorem chaff_priority_counterexample:
  "generate_detailed_chaff_report [] = Inr (detailed_chaff_closure []) \<and>
   known_bad_locs [] = {} \<and>
   e_result chaff_test_then_error = Ok [block_A, block_B] \<and>
   unmasked_failing_test {} failing_test \<and> failing_test \<in> set (b_tests block_A) \<and>
   find (unmasked_error {}) [block_A, block_B] = Some block_B \<and>
   r_output (detailed_chaff_closure [] chaff_test_then_error) =
     ''Chaff caught; test failed in block '' @ dq @ ''A'' @ dq @ ''!'' \<and>
   r_output (detailed_chaff_closure [] chaff_test_then_error) \<noteq>
     ''Chaff caught; error in block '' @ dq @ ''B'' @ dq @ ''!''"
  by (simp add: generate_detailed_chaff_report_def all_invalid_locs_of_def known_bad_locs_def
      chaff_test_then_error_def eval_of_def block_A_def block_B_def failing_test_def
      passing_test_def unmasked_failing_test_def unmasked_error_def detailed_chaff_closure_def
      get_score_and_output_def detailed_report_def)

text \<open>
  C3, amended. The blocks are scanned once, in order; the report cites the first block
  that has an unmasked failure of either kind, as an error in that block when the block
  itself errored at an unmasked location and otherwise as a failed test in that block. An
  errored block comes before a failing test only within the same block.
\<close>

theorem chaff_cites_first_caught_block:
  assumes "generate_detailed_chaff_report wheat_results = Inr reporter"
    and "e_result chaff = Ok (pre @ block # post)"
    and "\<not> list_ex (has_unmasked_failure (known_bad_locs wheat_results)) pre"
    and "has_unmasked_failure (known_bad_locs wheat_results) block"
  shows "r_output (reporter chaff) =
           (if unmasked_error (known_bad_locs wheat_results) block
            then ''Chaff caught; error in block '' @ dq @ b_name block @ dq @ ''!''
            else ''Chaff caught; test failed in block '' @ dq @ b_name block @ dq @ ''!'') \<and>
         r_score (reporter chaff) = Some 1"
proof -
  have rep: "reporter = detailed_chaff_closure (known_bad_list wheat_results)"
    using assms(1) by (simp add: generate_detailed_chaff_report_eq split: if_splits)
  have scan: "chaff_scan_blocks (known_bad_list wheat_results) (pre @ block # post) =
       \<lparr>so_output =
          (if unmasked_error (set (known_bad_list wheat_results)) block
           then ''Chaff caught; error in block '' @ dq @ b_name block @ dq @ ''!''
           else ''Chaff caught; test failed in block '' @ dq @ b_name block @ dq @ ''!''),
        so_score = 1\<rparr>"
    using assms(3,4) by (intro chaff_scan_blocks_first) (simp_all add: known_bad_list_set)
  show ?thesis
    by (simp add: scan rep detailed_chaff_closure_def get_score_and_output_def assms(2)
        detailed_report_def known_bad_list_set)
qed

theorem chaff_cites_first_caught_block_witness:
  "generate_detailed_chaff_report [] = Inr (detailed_chaff_closure []) \<and>
   e_result chaff_test_then_error = Ok ([] @ block_A # [block_B]) \<and>
   \<not> list_ex (has_unmasked_failure (known_bad_locs [])) [] \<and>
   has_unmasked_failure (known_bad_locs []) block_A \<and>
   \<not> unmasked_error (known_bad_locs []) block_A \<and>
   r_output (detailed_chaff_closure [] chaff_test_then_error) =
     ''Chaff caught; test failed in block '' @ dq @ ''A'' @ dq @ ''!'' \<and>
   r_score (detailed_chaff_closure [] chaff_test_then_error) = Some 1"
proof -
  have h1: "generate_detailed_chaff_report [] = Inr (detailed_chaff_closure [])"
    by (simp add: generate_detailed_chaff_report_def all_invalid_locs_of_def)
  have h2: "e_result chaff_test_then_error = Ok ([] @ block_A # [block_B])"
    by (simp add: chaff_test_then_error_def eval_of_def)
  have h3: "\<not> list_ex (has_unmasked_failure (known_bad_locs [])) []"
    by simp
  have h4: "has_unmasked_failure (known_bad_locs []) block_A"
    by (simp add: has_unmasked_failure_def unmasked_failing_test_def known_bad_locs_def
        block_A_def failing_test_def)
  have h5: "\<not> unmasked_error (known_bad_locs []) block_A"
    by (simp add: unmasked_error_def block_A_def)
  note cited = chaff_cites_first_caught_block[OF h1 h2 h3 h4]
  show ?thesis
    using h2 h3 h4 h5 by (simp add: cited h1 block_A_def)
qed

section \<open>The score aggregator\<close>

lemma score_loop_eq:
  "score_loop add same pv tot poss reports =
     (foldl (\<lambda>tot report. add tot (credit same pv report)) tot reports,
      foldl (\<lambda>tot report. add tot (weight pv report)) poss reports)"
  by (induction reports arbitrary: tot poss) (simp_all add: credit_def weight_def Let_def)

text \<open>
  C10. \<open>generate_score_report\<close>, for every list of reports, every point map and whatever
  the addition \<open>add\<close> and the comparison \<open>same\<close> of numbers are: both totals start at \<open>0\<close>;
  each report, in order, adds its weight (the point map's value for its name, \<open>1\<close> when the
  name is absent) to the maximum score, and adds its weight to the score if its score
  equals its maximum score and \<open>0\<close> otherwise. For the reports \<open>a\<close> (1 of 1) and \<open>b\<close>
  (0 of 1) and the point map \<open>a \<mapsto> two, b \<mapsto> three\<close> the result is \<open>two\<close> of \<open>five\<close>, given
  what the example needs of the numbers: \<open>1 === 1\<close>, not \<open>0 === 1\<close>, \<open>0 + two = two\<close>,
  \<open>two + 0 = two\<close> and \<open>two + three = five\<close>.
\<close>

theorem score_report_sums:
  "r_score (generate_score_report add same reports pv name sect) =
     Some (achieved add same pv reports) \<and>
   r_max_score (generate_score_report add same reports pv name sect) =
     Some (possible add pv reports) \<and>
   achieved add same pv [] = 0 \<and> possible add pv [] = 0 \<and>
   achieved add same pv (reports @ [report]) =
     add (achieved add same pv reports)
       (if strict_equal same (r_score report) (r_max_score report)
        then weight pv report else 0) \<and>
   possible add pv (reports @ [report]) = add (possible add pv reports) (weight pv report) \<and>
   weight pv report = (case pv (r_name report) of Some p \<Rightarrow> p | None \<Rightarrow> 1) \<and>
   (same 1 1 \<and> \<not> same 0 1 \<and> add 0 two = two \<and> add two 0 = two \<and> add two three = five \<longrightarrow>
      r_score (generate_score_report add same [report_a, report_b] (points_ab two three)
                 name sect) = Some two \<and>
      r_max_score (generate_score_report add same [report_a, report_b] (points_ab two three)
                     name sect) = Some five)"
proof -
  have totals:
    "r_score (generate_score_report add same reports pv name sect) =
       Some (achieved add same pv reports)"
    "r_max_score (generate_score_report add same reports pv name sect) =
       Some (possible add pv reports)"
    by (simp_all add: generate_score_report_def score_loop_eq achieved_def possible_def)
  have steps:
    "achieved add same pv [] = 0" "possible add pv [] = 0"
    "achieved add same pv (reports @ [report]) =
       add (achieved add same pv reports)
         (if strict_equal same (r_score report) (r_max_score report)
          then weight pv report else 0)"
    "possible add pv (reports @ [report]) = add (possible add pv reports) (weight pv report)"
    "weight pv report = (case pv (r_name report) of Some p \<Rightarrow> p | None \<Rightarrow> 1)"
    by (simp_all add: achieved_def possible_def credit_def weight_def)
  have example:
    "same 1 1 \<and> \<not> same 0 1 \<and> add 0 two = two \<and> add two 0 = two \<and> add two three = five \<longrightarrow>
      r_score (generate_score_report add same [report_a, report_b] (points_ab two three)
                 name sect) = Some two \<and>
      r_max_score (generate_score_report add same [report_a, report_b] (points_ab two three)
                     name sect) = Some five"
    by (simp add: generate_score_report_def strict_equal_def report_a_def report_b_def
        points_ab_def detailed_report_def)
  from totals steps example show ?thesis by blast
qed

theorem score_report_sums_witness:
  "(1::int) = 1 \<and> (0::int) \<noteq> 1 \<and> (0::int) + 2 = 2 \<and> (2::int) + 0 = 2 \<and> (2::int) + 3 = 5 \<and>
   r_score (generate_score_report (+) (=) [report_a, report_b] (points_ab 2 3)
              ''wheats'' Wheat) = Some (2::int) \<and>
   r_max_score (generate_score_report (+) (=) [report_a, report_b] (points_ab 2 3)
                  ''wheats'' Wheat) = Some (5::int)"
  using score_report_sums[where add = "(+) :: int \<Rightarrow> int \<Rightarrow> int" and same = "(=)"
      and two = 2 and three = 3 and five = 5 and name = "''wheats''" and sect = Wheat
      and reports = "[]" and pv = Map.empty and report = report_a]
  by simp

end
